theory Spec2Isabelle
  imports Complex_Main
begin

section \<open>Python values, exceptions and string helpers\<close>

text \<open>
  The module \<^verbatim>\<open>mkdocs_git_revision_date_localized_plugin/util.py\<close> is glue code
  around GitPython, babel and the standard library.  Every exception that the
  module raises, re-raises or lets through is a value of \<open>exception\<close>; a
  computation that may raise returns \<open>exception + 'a\<close> with \<open>Inl\<close> the exception.
\<close>

datatype exception =
    InvalidGitRepositoryError
  | NoSuchPathError
  | GitCommandError
  | GitCommandNotFound
  | LookupError string           \<comment> \<open>babel's \<^verbatim>\<open>get_timezone\<close> on an unknown zone\<close>
  | UnknownLocaleError string    \<comment> \<open>babel's \<^verbatim>\<open>format_date\<close> on an unknown locale\<close>
  | ValueError
  | TypeError
  | OverflowError
  | OSError
  | IndexError
  | AttributeError
  | OtherError string

text \<open>The Python values that flow through the module: configuration values, and
  the variable \<^verbatim>\<open>unix_timestamp\<close>, which holds \<^verbatim>\<open>None\<close>, the text printed by
  \<^verbatim>\<open>git log\<close>, or the float of \<^verbatim>\<open>time.time()\<close>.\<close>

datatype pyval =
    PyNone
  | PyBool bool
  | PyInt int
  | PyFloat real
  | PyStr string

text \<open>Truthiness, as \<^verbatim>\<open>if x\<close> and \<^verbatim>\<open>not x\<close> test it.\<close>

fun py_truthy :: "pyval \<Rightarrow> bool" where
  "py_truthy PyNone = False"
| "py_truthy (PyBool b) = b"
| "py_truthy (PyInt n) = (n \<noteq> 0)"
| "py_truthy (PyFloat x) = (x \<noteq> 0)"
| "py_truthy (PyStr s) = (s \<noteq> [])"

text \<open>\<^verbatim>\<open>d.get(k)\<close>: the value, or \<^verbatim>\<open>None\<close> for a missing key.\<close>

definition dict_get :: "(string \<rightharpoonup> pyval) \<Rightarrow> string \<Rightarrow> pyval" where
  "dict_get d k = (case d k of None \<Rightarrow> PyNone | Some v \<Rightarrow> v)"

text \<open>A \<open>string\<close> of the model is a Python \<^verbatim>\<open>str\<close> whose code points lie below 256,
  one \<open>char\<close> for each code point.

  White space as \<^verbatim>\<open>str.split()\<close> sees it (\<^verbatim>\<open>str.isspace\<close>): tab, line feed,
  vertical tab, form feed, carriage return, the four separators \<^verbatim>\<open>0x1c\<close> to
  \<^verbatim>\<open>0x1f\<close>, space, next line \<^verbatim>\<open>0x85\<close> and no-break space \<^verbatim>\<open>0xa0\<close>.\<close>

definition is_space :: "char \<Rightarrow> bool" where
  "is_space c = (c \<in> set [CHR 0x09, CHR 0x0A, CHR 0x0B, CHR 0x0C, CHR 0x0D,
                           CHR 0x1C, CHR 0x1D, CHR 0x1E, CHR 0x1F, CHR 0x20,
                           CHR 0x85, CHR 0xA0])"

text \<open>White space as \<^verbatim>\<open>int()\<close> skips it around a literal: the ASCII characters tab,
  line feed, vertical tab, form feed, carriage return and space, and the white
  space beyond ASCII, \<^verbatim>\<open>0x85\<close> and \<^verbatim>\<open>0xa0\<close>.  The separators \<^verbatim>\<open>0x1c\<close> to
  \<^verbatim>\<open>0x1f\<close> are not skipped: \<^verbatim>\<open>int\<close> rejects a string that holds one.\<close>

definition is_int_space :: "char \<Rightarrow> bool" where
  "is_int_space c = (c \<in> set [CHR 0x09, CHR 0x0A, CHR 0x0B, CHR 0x0C, CHR 0x0D, CHR 0x20,
                               CHR 0x85, CHR 0xA0])"

definition is_digit :: "char \<Rightarrow> bool" where
  "is_digit c = (c \<in> set ''0123456789'')"

definition digit_val :: "char \<Rightarrow> int" where
  "digit_val c = int (of_char c) - 48"

text \<open>\<^verbatim>\<open>s.split("\n")\<close>: splitting at a separator character always yields at least
  one piece; the empty string yields one empty piece.\<close>

fun split_on :: "char \<Rightarrow> string \<Rightarrow> string list" where
  "split_on sep [] = [[]]"
| "split_on sep (c # cs) =
     (if c = sep then [] # split_on sep cs
      else (case split_on sep cs of
              [] \<Rightarrow> [[c]]
            | w # ws \<Rightarrow> (c # w) # ws))"

text \<open>\<^verbatim>\<open>s.split()\<close>: the maximal runs of non-space characters; a blank string yields
  the empty list.\<close>

function py_split :: "string \<Rightarrow> string list" where
  "py_split s =
     (let t = dropWhile is_space s in
      if t = [] then []
      else takeWhile (\<lambda>c. \<not> is_space c) t # py_split (dropWhile (\<lambda>c. \<not> is_space c) t))"
  by pat_completeness auto
termination
proof (relation "measure length")
  show "wf (measure length)" by simp
next
  fix s t :: string
  assume t: "t = dropWhile is_space s" and ne: "t \<noteq> []"
  from ne obtain c cs where tc: "t = c # cs" by (cases t) auto
  have "dropWhile is_space s \<noteq> []" using t ne by simp
  then have "\<not> is_space (hd (dropWhile is_space s))" by (rule hd_dropWhile)
  moreover have "hd (dropWhile is_space s) = c" using t tc by (metis list.sel(1))
  ultimately have "\<not> is_space c" by simp
  then have "dropWhile (\<lambda>c. \<not> is_space c) t = dropWhile (\<lambda>c. \<not> is_space c) cs"
    by (simp add: tc)
  then have "length (dropWhile (\<lambda>c. \<not> is_space c) t) \<le> length cs"
    by (simp add: length_dropWhile_le)
  also have "length cs < length t" by (simp add: tc)
  also have "length t \<le> length s" by (simp add: t length_dropWhile_le)
  finally show "(dropWhile (\<lambda>c. \<not> is_space c) t, s) \<in> measure length" by simp
qed

declare py_split.simps [simp del]

text \<open>\<^verbatim>\<open>int(s)\<close> on a string, base ten: the white space of \<open>is_int_space\<close> around
  the literal is dropped, one sign is allowed, then decimal digits, where single
  underscores may separate digits.  \<open>None\<close> stands for the \<^verbatim>\<open>ValueError\<close> of a
  string that is not such a literal.\<close>

fun digits_value :: "string \<Rightarrow> int \<Rightarrow> int option" where
  "digits_value [] acc = Some acc"
| "digits_value (c # cs) acc =
     (if is_digit c then digits_value cs (10 * acc + digit_val c)
      else if c = CHR ''_'' then
        (case cs of
           [] \<Rightarrow> None
         | d # ds \<Rightarrow> if is_digit d then digits_value cs acc else None)
      else None)"

definition unsigned_value :: "string \<Rightarrow> int option" where
  "unsigned_value s =
     (case s of
        [] \<Rightarrow> None
      | d # ds \<Rightarrow> if is_digit d then digits_value s 0 else None)"

definition int_of_str :: "string \<Rightarrow> int option" where
  "int_of_str s =
     (case rev (dropWhile is_int_space (rev (dropWhile is_int_space s))) of
        [] \<Rightarrow> None
      | c # cs \<Rightarrow>
          if c = CHR ''-'' then map_option uminus (unsigned_value cs)
          else if c = CHR ''+'' then unsigned_value cs
          else unsigned_value (c # cs))"

text \<open>\<^verbatim>\<open>int(x)\<close>: a float is truncated towards zero (a clock reading is finite),
  a string is parsed, \<^verbatim>\<open>None\<close> is a \<^verbatim>\<open>TypeError\<close>.\<close>

fun py_int :: "pyval \<Rightarrow> exception + int" where
  "py_int PyNone = Inl TypeError"
| "py_int (PyBool b) = Inr (if b then 1 else 0)"
| "py_int (PyInt n) = Inr n"
| "py_int (PyFloat x) = Inr (if x < 0 then \<lceil>x\<rceil> else \<lfloor>x\<rfloor>)"
| "py_int (PyStr s) = (case int_of_str s of None \<Rightarrow> Inl ValueError | Some n \<Rightarrow> Inr n)"

text \<open>\<^verbatim>\<open>max(xs)\<close> on a list: a \<^verbatim>\<open>ValueError\<close> on the empty list.\<close>

fun py_max :: "int list \<Rightarrow> exception + int" where
  "py_max [] = Inl ValueError"
| "py_max (x # xs) = Inr (fold max xs x)"

section \<open>The process environment and the repository handle\<close>

text \<open>
  \<open>git\<close> is the command interface \<^verbatim>\<open>Repo(...).git\<close> that the module keeps in
  \<^verbatim>\<open>self.repo\<close>.  Each command either raises or returns the text that git prints:
  \<^item> \<open>for_each_ref\<close> is \<^verbatim>\<open>repo.for_each_ref()\<close>;
  \<^item> \<open>rev_list x\<close> is \<^verbatim>\<open>repo.rev_list(x, count=True, first_parent=True)\<close>;
  \<^item> \<open>git_log path\<close> is \<^verbatim>\<open>repo.log(path, n=1, date="short", format="%at")\<close>.
  \<open>git_dir\<close> is the repository's own metadata directory.
\<close>

record git =
  git_dir :: string
  for_each_ref :: "exception + string"
  rev_list :: "string \<Rightarrow> exception + string"
  git_log :: "string \<Rightarrow> exception + string"

text \<open>
  \<open>world\<close> is what the module reads from outside:
  \<^item> \<open>Repo path\<close> is \<^verbatim>\<open>Repo(path, search_parent_directories=True).git\<close>, or the
    exception that locating the repository raises;
  \<^item> \<open>cwd\<close> and \<open>path_exists\<close> (on absolute paths) give \<^verbatim>\<open>os.path.exists\<close>;
  \<^item> \<open>environ\<close> is \<^verbatim>\<open>os.environ\<close>;
  \<^item> \<open>time_time\<close> is the reading of \<^verbatim>\<open>time.time()\<close>;
  \<^item> \<open>timezones\<close> is what babel's \<^verbatim>\<open>get_timezone\<close> does with a zone name: a
    known name gives the offset from UTC, in seconds, at a UTC instant; any other
    name gives the exception that babel raises, a \<^verbatim>\<open>LookupError\<close> for an unknown
    zone;
  \<^item> \<open>locales\<close> is what babel's \<^verbatim>\<open>format_date(d, format="long", locale=...)\<close> does
    with a locale identifier: a known locale gives its long date format on year,
    month, day; any other identifier gives the exception that babel raises, an
    \<^verbatim>\<open>UnknownLocaleError\<close> for a locale without data and a \<^verbatim>\<open>ValueError\<close> for a
    malformed identifier.
\<close>

record world =
  Repo :: "string \<Rightarrow> exception + git"
  cwd :: string
  path_exists :: "string \<Rightarrow> bool"
  environ :: "string \<rightharpoonup> string"
  time_time :: real
  timezones :: "string \<Rightarrow> exception + (int \<Rightarrow> int)"
  locales :: "string \<Rightarrow> exception + (nat \<times> nat \<times> nat \<Rightarrow> string)"

text \<open>\<^verbatim>\<open>os.path.exists(p)\<close>: a relative path is resolved against the current working
  directory of the process.\<close>

definition os_path_exists :: "world \<Rightarrow> string \<Rightarrow> bool" where
  "os_path_exists w p =
     (case p of
        [] \<Rightarrow> False
      | c # cs \<Rightarrow> if c = CHR ''/'' then path_exists w p
                 else path_exists w (cwd w @ ''/'' @ p))"

text \<open>\<^verbatim>\<open>os.environ.get(k)\<close> used as a condition: set and not empty.\<close>

definition environ_truthy :: "world \<Rightarrow> string \<Rightarrow> bool" where
  "environ_truthy w k = (case environ w k of None \<Rightarrow> False | Some v \<Rightarrow> v \<noteq> [])"

subsection \<open>Log records and git commands as events\<close>

datatype level = WARNING | ERROR

text \<open>The messages of the module, one constructor each:
  \<^item> \<open>FallingBackNoRepo\<close>: ``Unable to find a git directory and/or git is not
    installed.  Option 'fallback\_to\_build\_date' set to 'true': Falling back to
    build date'';
  \<^item> \<open>NoRepo\<close>: ``Unable to find a git directory and/or git is not installed. To
    ignore this error, set option 'fallback\_to\_build\_date: true' '';
  \<^item> \<open>GitlabShallow\<close>: ``Running on a gitlab runner might lead to wrong git
    revision dates due to a shallow git fetch depth. Make sure to set GIT\_DEPTH
    to 1000 in your .gitlab-ci.yml file.'';
  \<^item> \<open>GithubShallow\<close>: ``Running on github actions might lead to wrong git
    revision dates due to a shallow git fetch depth. Try setting fetch-depth to 0
    in your github action'';
  \<^item> \<open>FallingBackLogUnreadable path\<close> and \<open>LogUnreadable path\<close>: ``Unable to read
    git logs of 'path'.'' with the fallback notice, or with the hint to set the
    option;
  \<^item> \<open>FallingBackGitMissing\<close> and \<open>GitMissing\<close>: ``Unable to perform command
    'git log'. Is git installed?'', likewise;
  \<^item> \<open>NoGitLogs path\<close>: `` 'path' has no git logs, using current timestamp''.\<close>

datatype message =
    FallingBackNoRepo
  | NoRepo
  | GitlabShallow
  | GithubShallow
  | FallingBackLogUnreadable string
  | LogUnreadable string
  | FallingBackGitMissing
  | GitMissing
  | NoGitLogs string

text \<open>What a call does besides returning: the records it hands to \<^verbatim>\<open>logging\<close> and
  the git commands it runs through the handle, in order.\<close>

datatype event =
    Logging level message
  | ForEachRef
  | RevList string
  | GitLog string

section \<open>Shallow-clone detection\<close>

text \<open>\<^verbatim>\<open>is_shallow_clone(repo)\<close> returns \<^verbatim>\<open>os.path.exists(".git/shallow")\<close>.\<close>

definition is_shallow_clone :: "world \<Rightarrow> git \<Rightarrow> bool" where
  "is_shallow_clone w repo = os_path_exists w ''.git/shallow''"

text \<open>\<^verbatim>\<open>[x.split()[0] for x in refs]\<close>: an \<^verbatim>\<open>IndexError\<close> at the first blank line.\<close>

fun first_words :: "string list \<Rightarrow> exception + string list" where
  "first_words [] = Inr []"
| "first_words (x # xs) =
     (case py_split x of
        [] \<Rightarrow> Inl IndexError
      | r # _ \<Rightarrow> (case first_words xs of Inl e \<Rightarrow> Inl e | Inr rs \<Rightarrow> Inr (r # rs)))"

text \<open>\<^verbatim>\<open>[int(repo.rev_list(x, count=True, first_parent=True)) for x in refs]\<close>: the
  comprehension stops at the first command that raises and at the first output
  that \<^verbatim>\<open>int\<close> rejects.\<close>

fun rev_counts :: "git \<Rightarrow> string list \<Rightarrow> event list \<times> (exception + int list)" where
  "rev_counts repo [] = ([], Inr [])"
| "rev_counts repo (x # xs) =
     (case rev_list repo x of
        Inl e \<Rightarrow> ([RevList x], Inl e)
      | Inr out \<Rightarrow>
          (case py_int (PyStr out) of
             Inl e \<Rightarrow> ([RevList x], Inl e)
           | Inr n \<Rightarrow>
               (case rev_counts repo xs of
                  (evs, Inl e) \<Rightarrow> (RevList x # evs, Inl e)
                | (evs, Inr ns) \<Rightarrow> (RevList x # evs, Inr (n # ns)))))"

definition commit_count :: "git \<Rightarrow> event list \<times> (exception + int)" where
  "commit_count repo =
     (case for_each_ref repo of
        Inl e \<Rightarrow> ([ForEachRef], Inl e)
      | Inr out \<Rightarrow>
          (case first_words (split_on (CHR 0x0A) out) of
             Inl e \<Rightarrow> ([ForEachRef], Inl e)
           | Inr refs \<Rightarrow>
               (case rev_counts repo refs of
                  (evs, Inl e) \<Rightarrow> (ForEachRef # evs, Inl e)
                | (evs, Inr counts) \<Rightarrow> (ForEachRef # evs, py_max counts))))"

section \<open>The resolver\<close>

text \<open>The fields of a \<^verbatim>\<open>Util\<close> instance.  In fallback-only mode \<^verbatim>\<open>self.repo\<close> is
  never assigned: \<open>repo\<close> is \<open>None\<close>.\<close>

record util =
  fallback_enabled :: bool
  repo :: "git option"

text \<open>\<^verbatim>\<open>Util.__init__(self, path, config)\<close>.  The bare \<^verbatim>\<open>except:\<close> catches whatever
  locating the repository raises; the bare \<^verbatim>\<open>raise\<close> raises it again.  A
  constructor that raises yields no instance.\<close>

definition Util_init :: "world \<Rightarrow> string \<Rightarrow> (string \<rightharpoonup> pyval) \<Rightarrow> event list \<times> (exception + util)" where
  "Util_init w path config =
     (case Repo w path of
        Inl e \<Rightarrow>
          if py_truthy (dict_get config ''fallback_to_build_date'')
          then ([Logging WARNING FallingBackNoRepo], Inr \<lparr>fallback_enabled = True, repo = None\<rparr>)
          else ([Logging ERROR NoRepo], Inl e)
      | Inr g \<Rightarrow>
          let self = \<lparr>fallback_enabled = False, repo = Some g\<rparr> in
          if is_shallow_clone w g then
            (case commit_count g of
               (evs, Inl e) \<Rightarrow> (evs, Inl e)
             | (evs, Inr n_commits) \<Rightarrow>
                 (evs
                  @ (if environ_truthy w ''GITLAB_CI'' \<and> n_commits < 50
                     then [Logging WARNING GitlabShallow] else [])
                  @ (if environ_truthy w ''GITHUB_ACTIONS'' \<and> n_commits = 1
                     then [Logging WARNING GithubShallow] else []),
                  Inr self))
          else ([], Inr self))"

section \<open>Dates\<close>

text \<open>
  An aware \<^verbatim>\<open>datetime\<close>: the civil fields and the offset from UTC in seconds.
  The module builds it from whole seconds, so there are no microseconds.
\<close>

record datetime =
  year :: nat
  month :: nat
  day :: nat
  hour :: nat
  minute :: nat
  second :: nat
  utcoffset :: int

text \<open>The proleptic Gregorian calendar date of a day number counted from
  1970-01-01, as year, month, day; the year may fall outside what \<^verbatim>\<open>datetime\<close>
  can hold.\<close>

definition civil_from_days :: "int \<Rightarrow> int \<times> int \<times> int" where
  "civil_from_days z0 =
     (let z = z0 + 719468;
          era = z div 146097;
          doe = z - era * 146097;
          yoe = (doe - doe div 1460 + doe div 36524 - doe div 146096) div 365;
          y = yoe + era * 400;
          doy = doe - (365 * yoe + yoe div 4 - yoe div 100);
          mp = (5 * doy + 2) div 153;
          d = doy - (153 * mp + 2) div 5 + 1;
          m = (if mp < 10 then mp + 3 else mp - 9)
      in (if m \<le> 2 then y + 1 else y, m, d))"

text \<open>The fields of the instant \<open>t\<close> seconds after the epoch, shown at offset \<open>off\<close>;
  \<open>None\<close> when the year is outside \<^verbatim>\<open>MINYEAR..MAXYEAR\<close>, that is 1 to 9999.\<close>

definition fields_at :: "int \<Rightarrow> int \<Rightarrow> datetime option" where
  "fields_at t off =
     (let l = t + off;
          (y, m, d) = civil_from_days (l div 86400);
          s = l mod 86400
      in if y < 1 \<or> 9999 < y then None
         else Some \<lparr>year = nat y, month = nat m, day = nat d,
                     hour = nat (s div 3600), minute = nat (s mod 3600 div 60),
                     second = nat (s mod 60), utcoffset = off\<rparr>)"

text \<open>\<^verbatim>\<open>datetime.utcfromtimestamp(t)\<close> on Linux with a 64-bit \<^verbatim>\<open>time_t\<close>: an
  \<^verbatim>\<open>OverflowError\<close> when \<open>t\<close> does not fit \<^verbatim>\<open>time_t\<close>, an \<^verbatim>\<open>OSError\<close> when the C
  library cannot hold the year, a \<^verbatim>\<open>ValueError\<close> when the year is outside 1 to
  9999.\<close>

definition utcfromtimestamp :: "int \<Rightarrow> exception + datetime" where
  "utcfromtimestamp t =
     (if t < - 9223372036854775808 \<or> 9223372036854775807 < t then Inl OverflowError
      else if t < - 67768040609740800 \<or> 67768036191676799 < t then Inl OSError
      else (case fields_at t 0 of None \<Rightarrow> Inl ValueError | Some d \<Rightarrow> Inr d))"

text \<open>babel's \<^verbatim>\<open>get_timezone(zone)\<close>: the zone \<^verbatim>\<open>UTC\<close> is built in, any other name is
  looked up, and a name that is not known raises.\<close>

definition get_timezone :: "world \<Rightarrow> string \<Rightarrow> exception + (int \<Rightarrow> int)" where
  "get_timezone w zone = (if zone = ''UTC'' then Inr (\<lambda>t. 0) else timezones w zone)"

text \<open>\<^verbatim>\<open>d.astimezone(tz)\<close> for the aware datetime of the instant \<open>t\<close>: an
  \<^verbatim>\<open>OverflowError\<close> when the local date is out of range.\<close>

definition astimezone :: "int \<Rightarrow> (int \<Rightarrow> int) \<Rightarrow> exception + datetime" where
  "astimezone t tz = (case fields_at t (tz t) of None \<Rightarrow> Inl OverflowError | Some d \<Rightarrow> Inr d)"

text \<open>Decimal digits of a natural number, and left padding with zeros
  (\<^verbatim>\<open>%02d\<close>, \<^verbatim>\<open>%04d\<close>).\<close>

fun str_nat :: "nat \<Rightarrow> string" where
  "str_nat n =
     (if n < 10 then [char_of (48 + n)]
      else str_nat (n div 10) @ [char_of (48 + n mod 10)])"

declare str_nat.simps [simp del]

definition zero_pad :: "nat \<Rightarrow> nat \<Rightarrow> string" where
  "zero_pad k n = replicate (k - length (str_nat n)) (CHR ''0'') @ str_nat n"

text \<open>\<^verbatim>\<open>d.strftime(fmt)\<close> for the directives the module uses, as the C library
  of Linux prints them: \<^verbatim>\<open>%Y\<close> is the year without padding (\<^verbatim>\<open>999\<close> for the year
  999), and \<^verbatim>\<open>%m\<close>, \<^verbatim>\<open>%d\<close>, \<^verbatim>\<open>%H\<close>, \<^verbatim>\<open>%M\<close> and \<^verbatim>\<open>%S\<close> are padded with zeros to
  two digits; any other character is copied.\<close>

definition directive :: "datetime \<Rightarrow> char \<Rightarrow> string" where
  "directive d k =
     (if k = CHR ''Y'' then str_nat (year d)
      else if k = CHR ''m'' then zero_pad 2 (month d)
      else if k = CHR ''d'' then zero_pad 2 (day d)
      else if k = CHR ''H'' then zero_pad 2 (hour d)
      else if k = CHR ''M'' then zero_pad 2 (minute d)
      else if k = CHR ''S'' then zero_pad 2 (second d)
      else [CHR ''%'', k])"

fun strftime :: "datetime \<Rightarrow> string \<Rightarrow> string" where
  "strftime d [] = []"
| "strftime d [c] = [c]"
| "strftime d (c # k # cs) =
     (if c = CHR ''%'' then directive d k @ strftime d cs
      else c # strftime d (k # cs))"

text \<open>\<^verbatim>\<open>d.isoformat()\<close> of an aware datetime without microseconds:
  \<^verbatim>\<open>YYYY-MM-DDTHH:MM:SS+HH:MM\<close>, with the seconds of the offset when it has any.\<close>

definition isoformat :: "datetime \<Rightarrow> string" where
  "isoformat d =
     (let a = nat \<bar>utcoffset d\<bar> in
      zero_pad 4 (year d) @ ''-'' @ zero_pad 2 (month d) @ ''-'' @ zero_pad 2 (day d)
      @ ''T'' @ zero_pad 2 (hour d) @ '':'' @ zero_pad 2 (minute d) @ '':'' @ zero_pad 2 (second d)
      @ (if utcoffset d < 0 then ''-'' else ''+'')
      @ zero_pad 2 (a div 3600) @ '':'' @ zero_pad 2 (a mod 3600 div 60)
      @ (if a mod 60 = 0 then [] else '':'' @ zero_pad 2 (a mod 60)))"

text \<open>babel's \<^verbatim>\<open>format_date(d, format="long", locale=locale)\<close>: the long format of
  the locale on the date part of \<open>d\<close>, or the exception that babel raises for the
  identifier.\<close>

definition format_date :: "world \<Rightarrow> datetime \<Rightarrow> string \<Rightarrow> exception + string" where
  "format_date w d locale =
     (case locales w locale of
        Inl e \<Rightarrow> Inl e
      | Inr f \<Rightarrow> Inr (f (year d, month d, day d)))"

text \<open>Lines 78 to 81 of the source: \<^verbatim>\<open>loc_revision_date\<close>.\<close>

definition loc_revision_date :: "world \<Rightarrow> pyval \<Rightarrow> string \<Rightarrow> exception + datetime" where
  "loc_revision_date w unix_timestamp time_zone =
     (case py_int unix_timestamp of
        Inl e \<Rightarrow> Inl e
      | Inr t \<Rightarrow>
          (case utcfromtimestamp t of
             Inl e \<Rightarrow> Inl e
           | Inr utc_revision_date \<Rightarrow>
               (case get_timezone w ''UTC'' of
                  Inl e \<Rightarrow> Inl e
                | Inr utc \<Rightarrow>
                    (case get_timezone w time_zone of
                       Inl e \<Rightarrow> Inl e
                     | Inr tz \<Rightarrow> astimezone t tz))))"

text \<open>\<^verbatim>\<open>Util._date_formats(unix_timestamp, locale, time_zone)\<close>: the dictionary, as
  its items in the order of the source.  Both uses of \<^verbatim>\<open>format_date\<close> have the same
  arguments, so the first one decides whether the locale is known.\<close>

definition date_formats :: "world \<Rightarrow> pyval \<Rightarrow> string \<Rightarrow> string \<Rightarrow> exception + (string \<times> string) list" where
  "date_formats w unix_timestamp locale time_zone =
     (case loc_revision_date w unix_timestamp time_zone of
        Inl e \<Rightarrow> Inl e
      | Inr d \<Rightarrow>
          (case format_date w d locale of
             Inl e \<Rightarrow> Inl e
           | Inr long \<Rightarrow>
               Inr [(''date'', long),
                    (''datetime'', long @ '' '' @ strftime d ''%H:%M:%S''),
                    (''iso_date'', strftime d ''%Y-%m-%d''),
                    (''iso_datetime'', strftime d ''%Y-%m-%d %H:%M:%S''),
                    (''timeago'',
                       ''<span class='' @ [CHR 0x27] @ ''timeago'' @ [CHR 0x27]
                       @ '' datetime='' @ [CHR 0x27] @ isoformat d @ [CHR 0x27]
                       @ '' locale='' @ [CHR 0x27] @ locale @ [CHR 0x27]
                       @ ''></span>'')]))"

text \<open>The \<^verbatim>\<open>try\<close> statement of \<^verbatim>\<open>get_revision_date_for_file\<close>: the value left in
  \<^verbatim>\<open>unix_timestamp\<close>, or the exception that leaves the function.  An instance that
  is not in fallback-only mode and has no \<^verbatim>\<open>self.repo\<close> would raise an
  \<^verbatim>\<open>AttributeError\<close>; an exception of any other class than the two handled ones
  passes through.\<close>

definition perform_git_log :: "util \<Rightarrow> string \<Rightarrow> bool \<Rightarrow> event list \<times> (exception + pyval)" where
  "perform_git_log self path fallback_to_build_date =
     (if \<not> fallback_enabled self then
        (case repo self of
           None \<Rightarrow> ([], Inl AttributeError)
         | Some g \<Rightarrow>
             (case git_log g path of
                Inr out \<Rightarrow> ([GitLog path], Inr (PyStr out))
              | Inl err \<Rightarrow>
                  if err = GitCommandError then
                    (if fallback_to_build_date
                     then ([GitLog path, Logging WARNING (FallingBackLogUnreadable path)], Inr PyNone)
                     else ([GitLog path, Logging ERROR (LogUnreadable path)], Inl err))
                  else if err = GitCommandNotFound then
                    (if fallback_to_build_date
                     then ([GitLog path, Logging WARNING FallingBackGitMissing], Inr PyNone)
                     else ([GitLog path, Logging ERROR GitMissing], Inl err))
                  else ([GitLog path], Inl err)))
      else ([], Inr PyNone))"

text \<open>\<^verbatim>\<open>Util.get_revision_date_for_file(self, path, locale, time_zone,
  fallback_to_build_date)\<close>, in the world of the call.\<close>

definition get_revision_date_for_file ::
  "world \<Rightarrow> util \<Rightarrow> string \<Rightarrow> string \<Rightarrow> string \<Rightarrow> bool
     \<Rightarrow> event list \<times> (exception + (string \<times> string) list)" where
  "get_revision_date_for_file w self path locale time_zone fallback_to_build_date =
     (case perform_git_log self path fallback_to_build_date of
        (evs, Inl err) \<Rightarrow> (evs, Inl err)
      | (evs, Inr unix_timestamp) \<Rightarrow>
          if \<not> py_truthy unix_timestamp then
            (evs @ (if \<not> fallback_enabled self then [Logging WARNING (NoGitLogs path)] else []),
             date_formats w (PyFloat (time_time w)) locale time_zone)
          else (evs, date_formats w unix_timestamp locale time_zone))"

section \<open>Valid inputs of the formatter\<close>

text \<open>A locale is valid when babel formats dates for it, a time zone when
  \<^verbatim>\<open>get_timezone\<close> accepts it.\<close>

definition valid_locale :: "world \<Rightarrow> string \<Rightarrow> bool" where
  "valid_locale w locale = (case locales w locale of Inl e \<Rightarrow> False | Inr f \<Rightarrow> True)"

definition valid_time_zone :: "world \<Rightarrow> string \<Rightarrow> bool" where
  "valid_time_zone w time_zone =
     (case get_timezone w time_zone of Inl e \<Rightarrow> False | Inr tz \<Rightarrow> True)"

text \<open>A timestamp is valid for a time zone when \<^verbatim>\<open>int\<close> accepts it and
  \<^verbatim>\<open>datetime\<close> can hold its date, both in UTC and, where the zone is known, in
  the zone.\<close>

definition valid_timestamp :: "world \<Rightarrow> pyval \<Rightarrow> string \<Rightarrow> bool" where
  "valid_timestamp w unix_timestamp time_zone =
     (case py_int unix_timestamp of
        Inl e \<Rightarrow> False
      | Inr t \<Rightarrow>
          (case utcfromtimestamp t of
             Inl e \<Rightarrow> False
           | Inr utc \<Rightarrow>
               (case get_timezone w time_zone of
                  Inl e \<Rightarrow> True
                | Inr tz \<Rightarrow> (case astimezone t tz of Inl e \<Rightarrow> False | Inr d \<Rightarrow> True))))"

text \<open>What the resolver expects of \<^verbatim>\<open>git log\<close> for a path: the command fails
  with one of the two exceptions that GitPython raises for a command, or it prints
  nothing, or it prints one author timestamp.  An instance in fallback-only mode
  never runs the command.\<close>

definition git_log_as_expected :: "world \<Rightarrow> util \<Rightarrow> string \<Rightarrow> string \<Rightarrow> bool" where
  "git_log_as_expected w self path time_zone =
     (if fallback_enabled self then True
      else (case repo self of
              None \<Rightarrow> False
            | Some g \<Rightarrow>
                (case git_log g path of
                   Inl err \<Rightarrow> err = GitCommandError \<or> err = GitCommandNotFound
                 | Inr out \<Rightarrow> out = [] \<or> valid_timestamp w (PyStr out) time_zone)))"

text \<open>The events that only read: the git queries of \<^verbatim>\<open>commit_count\<close>.\<close>

fun is_query :: "event \<Rightarrow> bool" where
  "is_query ForEachRef = True"
| "is_query (RevList x) = True"
| "is_query ev = False"

fun is_warning :: "event \<Rightarrow> bool" where
  "is_warning (Logging WARNING m) = True"
| "is_warning ev = False"

section \<open>Sample environments\<close>

text \<open>The long date format of the locale \<^verbatim>\<open>en\<close>, as in ``July 22, 2023''.\<close>

definition month_names :: "string list" where
  "month_names = [''January'', ''February'', ''March'', ''April'', ''May'', ''June'', ''July'',
                  ''August'', ''September'', ''October'', ''November'', ''December'']"

definition en_long :: "nat \<times> nat \<times> nat \<Rightarrow> string" where
  "en_long = (\<lambda>(y, m, d). month_names ! (m - 1) @ '' '' @ str_nat d @ '', '' @ str_nat y)"

text \<open>babel with the time zone \<^verbatim>\<open>Europe/Berlin\<close> (in summer) and the locale \<^verbatim>\<open>en\<close>, and
  babel with no time zone beside \<^verbatim>\<open>UTC\<close>.\<close>

definition sample_timezones :: "string \<Rightarrow> exception + (int \<Rightarrow> int)" where
  "sample_timezones zone =
     (if zone = ''Europe/Berlin'' then Inr (\<lambda>t. 7200) else Inl (LookupError zone))"

definition no_timezones :: "string \<Rightarrow> exception + (int \<Rightarrow> int)" where
  "no_timezones zone = Inl (LookupError zone)"

definition sample_locales :: "string \<Rightarrow> exception + (nat \<times> nat \<times> nat \<Rightarrow> string)" where
  "sample_locales locale =
     (if locale = ''en'' then Inr en_long else Inl (UnknownLocaleError locale))"

text \<open>A process started outside any repository.\<close>

definition no_repo_world :: world where
  "no_repo_world =
     \<lparr>Repo = (\<lambda>p. Inl InvalidGitRepositoryError),
      cwd = ''/srv/site'',
      path_exists = (\<lambda>p. False),
      environ = Map.empty,
      time_time = 1690000000.5,
      timezones = sample_timezones,
      locales = sample_locales\<rparr>"

definition fallback_config :: "string \<rightharpoonup> pyval" where
  "fallback_config = [''fallback_to_build_date'' \<mapsto> PyBool True]"

text \<open>A repository with three references, whose first-parent histories have 3, 1
  and 7 commits, and with one tracked page.\<close>

definition sample_git :: git where
  "sample_git =
     \<lparr>git_dir = ''/srv/docs/.git'',
      for_each_ref = Inr (''a1 commit'' @ [CHR 0x09] @ ''refs/heads/main'' @ [CHR 0x0A]
                          @ ''b2 commit'' @ [CHR 0x09] @ ''refs/heads/dev'' @ [CHR 0x0A]
                          @ ''c3 commit'' @ [CHR 0x09] @ ''refs/tags/v1''),
      rev_list = (\<lambda>x. if x = ''a1'' then Inr ''3''
                       else if x = ''b2'' then Inr ''1''
                       else if x = ''c3'' then Inr ''7''
                       else Inl GitCommandError),
      git_log = (\<lambda>p. if p = ''docs/index.md'' then Inr ''1690000000''
                      else if p = ''docs/new.md'' then Inr []
                      else Inl GitCommandError)\<rparr>"


text \<open>A full clone, built from its own root.\<close>

definition full_clone_world :: world where
  "full_clone_world =
     \<lparr>Repo = (\<lambda>p. Inr sample_git),
      cwd = ''/srv/docs'',
      path_exists = (\<lambda>p. False),
      environ = Map.empty,
      time_time = 1690000000.5,
      timezones = sample_timezones,
      locales = sample_locales\<rparr>"

text \<open>A GitLab job whose working directory \<^verbatim>\<open>/ci/build\<close> is a shallow clone, and
  which builds the pages of the full clone under \<^verbatim>\<open>/srv/docs\<close>.\<close>

definition gitlab_world :: world where
  "gitlab_world =
     \<lparr>Repo = (\<lambda>p. Inr sample_git),
      cwd = ''/ci/build'',
      path_exists = (\<lambda>p. p = ''/ci/build/.git/shallow''),
      environ = [''GITLAB_CI'' \<mapsto> ''true''],
      time_time = 1690000000.5,
      timezones = sample_timezones,
      locales = sample_locales\<rparr>"

text \<open>A GitHub Actions job on a checkout of depth one.\<close>

definition one_commit_git :: git where
  "one_commit_git =
     \<lparr>git_dir = ''/home/runner/work/site/.git'',
      for_each_ref = Inr (''d4 commit'' @ [CHR 0x09] @ ''refs/remotes/origin/main''),
      rev_list = (\<lambda>x. if x = ''d4'' then Inr ''1'' else Inl GitCommandError),
      git_log = (\<lambda>p. Inr ''1690000000'')\<rparr>"

definition github_world :: world where
  "github_world =
     \<lparr>Repo = (\<lambda>p. Inr one_commit_git),
      cwd = ''/home/runner/work/site'',
      path_exists = (\<lambda>p. p = ''/home/runner/work/site/.git/shallow''),
      environ = [''GITHUB_ACTIONS'' \<mapsto> ''true''],
      time_time = 1690000000.5,
      timezones = no_timezones,
      locales = sample_locales\<rparr>"

text \<open>A shallow checkout on which git refuses to run, as it does in a directory
  owned by another user: the repository is found, every command fails.\<close>

definition refusing_git :: git where
  "refusing_git =
     \<lparr>git_dir = ''/ci/build/.git'',
      for_each_ref = Inl GitCommandError,
      rev_list = (\<lambda>x. Inl GitCommandError),
      git_log = (\<lambda>p. Inl GitCommandError)\<rparr>"

definition refusing_world :: world where
  "refusing_world =
     \<lparr>Repo = (\<lambda>p. Inr refusing_git),
      cwd = ''/ci/build'',
      path_exists = (\<lambda>p. p = ''/ci/build/.git/shallow''),
      environ = Map.empty,
      time_time = 1690000000.5,
      timezones = no_timezones,
      locales = sample_locales\<rparr>"



definition sample_util :: util where
  "sample_util = \<lparr>fallback_enabled = False, repo = Some sample_git\<rparr>"

definition fallback_util :: util where
  "fallback_util = \<lparr>fallback_enabled = True, repo = None\<rparr>"

section \<open>Locating the repository\<close>

text \<open>
  Claim C1.  Whenever locating the repository from the starting path raises,
  whatever the exception: if the option \<^verbatim>\<open>fallback_to_build_date\<close> of the
  configuration is not truthy, the constructor logs the error and raises that same
  exception (the repository-not-found failure), so that no instance, complete or
  partial, is returned; if the option is truthy, the constructor logs a warning and
  returns an instance in fallback-only mode.
\<close>

theorem Util_init_repository_not_found:
  assumes "Repo w path = Inl e"
  shows "(\<not> py_truthy (dict_get config ''fallback_to_build_date'') \<longrightarrow>
            Util_init w path config = ([Logging ERROR NoRepo], Inl e))
       \<and> (py_truthy (dict_get config ''fallback_to_build_date'') \<longrightarrow>
            Util_init w path config =
              ([Logging WARNING FallingBackNoRepo], Inr \<lparr>fallback_enabled = True, repo = None\<rparr>))"
  using assms by (simp add: Util_init_def)

theorem Util_init_repository_not_found_witness:
  "Repo no_repo_world ''docs'' = Inl InvalidGitRepositoryError
   \<and> \<not> py_truthy (dict_get Map.empty ''fallback_to_build_date'')
   \<and> Util_init no_repo_world ''docs'' Map.empty = ([Logging ERROR NoRepo], Inl InvalidGitRepositoryError)
   \<and> py_truthy (dict_get fallback_config ''fallback_to_build_date'')
   \<and> Util_init no_repo_world ''docs'' fallback_config =
       ([Logging WARNING FallingBackNoRepo], Inr \<lparr>fallback_enabled = True, repo = None\<rparr>)"
proof -
  have r: "Repo no_repo_world ''docs'' = Inl InvalidGitRepositoryError"
    by (simp add: no_repo_world_def)
  have off: "\<not> py_truthy (dict_get Map.empty ''fallback_to_build_date'')"
    by (simp add: dict_get_def)
  have on: "py_truthy (dict_get fallback_config ''fallback_to_build_date'')"
    by (simp add: dict_get_def fallback_config_def)
  show ?thesis
    using r off on
      Util_init_repository_not_found [OF r, of Map.empty]
      Util_init_repository_not_found [OF r, of fallback_config]
    by simp
qed

section \<open>Fallback-only mode\<close>

lemma perform_git_log_fallback_only:
  "fallback_enabled self \<Longrightarrow> perform_git_log self path fb = ([], Inr PyNone)"
  by (simp add: perform_git_log_def)

lemma get_revision_date_fallback_only:
  "fallback_enabled self \<Longrightarrow>
     get_revision_date_for_file w self path locale time_zone fb =
       ([], date_formats w (PyFloat (time_time w)) locale time_zone)"
  by (simp add: get_revision_date_for_file_def perform_git_log_fallback_only)

text \<open>
  Claim C2.  When the repository cannot be located and the fallback option is
  truthy, the constructor returns an instance in fallback-only mode, and every later
  call of \<^verbatim>\<open>get_revision_date_for_file\<close> on that instance, for every path, locale,
  time zone and flag, in whatever state the world is by then, runs no git command
  and writes no log record (its list of events is empty, so it holds no history
  query) and returns exactly what \<^verbatim>\<open>_date_formats\<close> makes of the clock reading of
  that moment.
\<close>

theorem fallback_only_returns_now:
  assumes "Repo w p = Inl e"
      and "py_truthy (dict_get config ''fallback_to_build_date'')"
  shows "\<exists>self. snd (Util_init w p config) = Inr self \<and> fallback_enabled self
           \<and> (\<forall>w' path locale time_zone fb.
                 get_revision_date_for_file w' self path locale time_zone fb =
                   ([], date_formats w' (PyFloat (time_time w')) locale time_zone))"
proof -
  let ?self = "\<lparr>fallback_enabled = True, repo = None\<rparr>"
  have "snd (Util_init w p config) = Inr ?self"
    using assms by (simp add: Util_init_def)
  moreover have "fallback_enabled ?self" by simp
  ultimately show ?thesis
    using get_revision_date_fallback_only by blast
qed

theorem fallback_only_returns_now_witness:
  "Repo no_repo_world ''docs'' = Inl InvalidGitRepositoryError
   \<and> py_truthy (dict_get fallback_config ''fallback_to_build_date'')
   \<and> (\<exists>self. snd (Util_init no_repo_world ''docs'' fallback_config) = Inr self
          \<and> fallback_enabled self
          \<and> get_revision_date_for_file full_clone_world self ''docs/index.md'' ''en'' ''UTC'' False =
               ([], date_formats full_clone_world (PyFloat (time_time full_clone_world)) ''en'' ''UTC''))"
proof -
  have r: "Repo no_repo_world ''docs'' = Inl InvalidGitRepositoryError"
    by (simp add: no_repo_world_def)
  have on: "py_truthy (dict_get fallback_config ''fallback_to_build_date'')"
    by (simp add: dict_get_def fallback_config_def)
  from fallback_only_returns_now [OF r on]
  obtain self where s: "snd (Util_init no_repo_world ''docs'' fallback_config) = Inr self"
      "fallback_enabled self"
      "\<forall>w' path locale time_zone fb.
         get_revision_date_for_file w' self path locale time_zone fb =
           ([], date_formats w' (PyFloat (time_time w')) locale time_zone)"
    by blast
  from s(3) have "get_revision_date_for_file full_clone_world self ''docs/index.md'' ''en'' ''UTC'' False =
      ([], date_formats full_clone_world (PyFloat (time_time full_clone_world)) ''en'' ''UTC'')"
    by blast
  with r on s(1,2) show ?thesis by blast
qed

section \<open>Shallow-clone detection ignores the handle\<close>

text \<open>
  Claim C10.  The answer of \<^verbatim>\<open>is_shallow_clone\<close> does not depend on the repository
  handle it is given: in one state of the process, any two handles get the same
  answer, which is whether \<^verbatim>\<open>.git/shallow\<close> exists under the current working
  directory of the process; the metadata directory of the located repository plays
  no part.
\<close>

theorem is_shallow_clone_independent_of_repo:
  "is_shallow_clone w r1 = is_shallow_clone w r2
   \<and> is_shallow_clone w r1 = path_exists w (cwd w @ ''/.git/shallow'')"
  by (simp add: is_shallow_clone_def os_path_exists_def)

section \<open>The formatter\<close>

lemma str_nat_length_1: "n < 10 \<Longrightarrow> length (str_nat n) = 1"
  by (subst str_nat.simps) simp

lemma str_nat_length_2: "10 \<le> n \<Longrightarrow> n < 100 \<Longrightarrow> length (str_nat n) = 2"
  by (subst str_nat.simps) (simp add: str_nat_length_1)

lemma zero_pad_2_length: "n < 100 \<Longrightarrow> length (zero_pad 2 n) = 2"
  by (cases "n < 10") (simp_all add: zero_pad_def str_nat_length_1 str_nat_length_2)

lemma fields_at_ranges:
  assumes "fields_at t off = Some d"
  shows "hour d < 24 \<and> minute d < 60 \<and> second d < 60"
proof -
  obtain y m dd where c: "civil_from_days ((t + off) div 86400) = (y, m, dd)"
    by (cases "civil_from_days ((t + off) div 86400)") auto
  let ?s = "(t + off) mod 86400"
  have d: "d = \<lparr>year = nat y, month = nat m, day = nat dd,
                     hour = nat (?s div 3600), minute = nat (?s mod 3600 div 60),
                     second = nat (?s mod 60), utcoffset = off\<rparr>"
    using assms c by (simp add: fields_at_def Let_def split: if_splits)
  have s: "0 \<le> ?s" "?s < 86400" by simp_all
  have m: "0 \<le> ?s mod 3600" "?s mod 3600 < 3600" by simp_all
  have "nat (?s div 3600) < 24"
    using s by linarith
  moreover have "nat (?s mod 3600 div 60) < 60"
    using m by linarith
  moreover have "nat (?s mod 60) < 60"
    by linarith
  ultimately show ?thesis unfolding d by (simp only: datetime.select_convs simp_thms)
qed

lemma strftime_time: "strftime d ''%H:%M:%S'' =
   zero_pad 2 (hour d) @ '':'' @ zero_pad 2 (minute d) @ '':'' @ zero_pad 2 (second d)"
  by (simp add: directive_def)

lemma strftime_datetime: "strftime d ''%Y-%m-%d %H:%M:%S'' =
   strftime d ''%Y-%m-%d'' @ '' '' @ strftime d ''%H:%M:%S''"
  by (simp add: directive_def)

lemma strftime_time_length:
  assumes "hour d < 24" "minute d < 60" "second d < 60"
  shows "length (strftime d ''%H:%M:%S'') = 8"
  using assms unfolding strftime_time by (simp add: zero_pad_2_length)

lemma loc_revision_date_ranges:
  assumes "loc_revision_date w ts tz = Inr d"
  shows "hour d < 24 \<and> minute d < 60 \<and> second d < 60"
proof -
  from assms obtain t f where "fields_at t (f t) = Some d"
    by (auto simp: loc_revision_date_def astimezone_def split: sum.splits option.splits)
  then show ?thesis by (rule fields_at_ranges)
qed

lemma loc_revision_date_valid:
  assumes "valid_timestamp w ts tz" "valid_time_zone w tz"
  shows "\<exists>d. loc_revision_date w ts tz = Inr d"
  using assms
  by (auto simp: valid_timestamp_def valid_time_zone_def loc_revision_date_def
      get_timezone_def split: sum.splits option.splits if_splits)


lemma suffix_fits: "length t = n \<Longrightarrow> n \<le> length (a @ s @ t)"
  by simp

lemma drop_to_suffix: "length t = n \<Longrightarrow> drop (length (a @ s @ t) - n) (a @ s @ t) = t"
  by simp

lemma date_formats_items:
  assumes "loc_revision_date w ts tz = Inr d" "locales w locale = Inr f"
  shows "\<exists>r. date_formats w ts locale tz = Inr r
           \<and> map_of r ''date'' = Some (f (year d, month d, day d))
           \<and> map_of r ''datetime'' = Some (f (year d, month d, day d) @ '' '' @ strftime d ''%H:%M:%S'')
           \<and> map_of r ''iso_date'' = Some (strftime d ''%Y-%m-%d'')
           \<and> map_of r ''iso_datetime'' = Some (strftime d ''%Y-%m-%d %H:%M:%S'')"
  using assms by (simp add: date_formats_def format_date_def)

text \<open>
  Claim C4.  For every timestamp \<open>T\<close> that is valid for the time zone \<open>Z\<close>, every
  valid time zone \<open>Z\<close> and every valid locale \<open>L\<close>, \<^verbatim>\<open>_date_formats\<close> returns a
  dictionary in which the value of \<^verbatim>\<open>datetime\<close> ends in the eight characters
  \<^verbatim>\<open>HH:MM:SS\<close> of the time of day in the zone \<open>Z\<close>, and the value of
  \<^verbatim>\<open>iso_datetime\<close> is the value of \<^verbatim>\<open>iso_date\<close>, one space, and those eight
  characters.
\<close>

theorem iso_datetime_is_iso_date_and_time:
  assumes "valid_timestamp w T Z" and "valid_time_zone w Z" and "valid_locale w L"
  shows "\<exists>r d iso_date iso_datetime datetime_str.
           date_formats w T L Z = Inr r
         \<and> loc_revision_date w T Z = Inr d
         \<and> map_of r ''iso_date'' = Some iso_date
         \<and> map_of r ''iso_datetime'' = Some iso_datetime
         \<and> map_of r ''datetime'' = Some datetime_str
         \<and> 8 \<le> length datetime_str
         \<and> drop (length datetime_str - 8) datetime_str =
             zero_pad 2 (hour d) @ '':'' @ zero_pad 2 (minute d) @ '':'' @ zero_pad 2 (second d)
         \<and> iso_datetime = iso_date @ '' '' @ drop (length datetime_str - 8) datetime_str"
proof -
  from loc_revision_date_valid [OF assms(1,2)]
  obtain d where d: "loc_revision_date w T Z = Inr d" by blast
  from assms(3) obtain f where f: "locales w L = Inr f"
    by (auto simp: valid_locale_def split: sum.splits)
  from date_formats_items [OF d f] obtain r where r:
    "date_formats w T L Z = Inr r"
    "map_of r ''datetime'' = Some (f (year d, month d, day d) @ '' '' @ strftime d ''%H:%M:%S'')"
    "map_of r ''iso_date'' = Some (strftime d ''%Y-%m-%d'')"
    "map_of r ''iso_datetime'' = Some (strftime d ''%Y-%m-%d %H:%M:%S'')"
    by blast
  let ?long = "f (year d, month d, day d)"
  let ?time = "strftime d ''%H:%M:%S''"
  let ?dt = "?long @ '' '' @ ?time"
  have len: "length ?time = 8"
  proof (rule strftime_time_length)
    show "hour d < 24" "minute d < 60" "second d < 60"
      using loc_revision_date_ranges [OF d] by simp_all
  qed
  have l8: "8 \<le> length ?dt" using len by (rule suffix_fits)
  have tail: "drop (length ?dt - 8) ?dt = ?time" using len by (rule drop_to_suffix)
  have iso: "strftime d ''%Y-%m-%d %H:%M:%S'' = strftime d ''%Y-%m-%d'' @ '' '' @ drop (length ?dt - 8) ?dt"
    unfolding tail by (rule strftime_datetime)
  have tm: "drop (length ?dt - 8) ?dt =
      zero_pad 2 (hour d) @ '':'' @ zero_pad 2 (minute d) @ '':'' @ zero_pad 2 (second d)"
    unfolding tail by (rule strftime_time)
  from r d l8 tm iso show ?thesis by blast
qed

theorem iso_datetime_is_iso_date_and_time_witness:
  "valid_timestamp full_clone_world (PyStr ''1690000000'') ''Europe/Berlin''
   \<and> valid_time_zone full_clone_world ''Europe/Berlin''
   \<and> valid_locale full_clone_world ''en''
   \<and> (\<exists>r d iso_date iso_datetime datetime_str.
           date_formats full_clone_world (PyStr ''1690000000'') ''en'' ''Europe/Berlin'' = Inr r
         \<and> loc_revision_date full_clone_world (PyStr ''1690000000'') ''Europe/Berlin'' = Inr d
         \<and> map_of r ''iso_date'' = Some iso_date
         \<and> map_of r ''iso_datetime'' = Some iso_datetime
         \<and> map_of r ''datetime'' = Some datetime_str
         \<and> 8 \<le> length datetime_str
         \<and> drop (length datetime_str - 8) datetime_str =
             zero_pad 2 (hour d) @ '':'' @ zero_pad 2 (minute d) @ '':'' @ zero_pad 2 (second d)
         \<and> iso_datetime = iso_date @ '' '' @ drop (length datetime_str - 8) datetime_str)"
proof -
  have ts: "valid_timestamp full_clone_world (PyStr ''1690000000'') ''Europe/Berlin''"
    by code_simp
  have tz: "valid_time_zone full_clone_world ''Europe/Berlin''"
    by code_simp
  have loc: "valid_locale full_clone_world ''en''"
    by code_simp
  show ?thesis
    using ts tz loc iso_datetime_is_iso_date_and_time [OF ts tz loc]
    by (intro conjI)
qed

lemma loc_revision_date_sample:
  "loc_revision_date full_clone_world (PyStr ''1690000000'') ''Europe/Berlin'' =
     Inr \<lparr>year = 2023, month = 7, day = 22, hour = 6, minute = 26, second = 40,
          utcoffset = 7200\<rparr>"
  by code_simp

section \<open>Errors of the formatter\<close>

lemma date_formats_invalid_time_zone:
  assumes "\<not> valid_time_zone w time_zone"
  shows "\<exists>e. date_formats w ts locale time_zone = Inl e"
  using assms
  by (auto simp: valid_time_zone_def date_formats_def loc_revision_date_def split: sum.splits)

lemma date_formats_invalid_locale:
  assumes "\<not> valid_locale w locale"
  shows "\<exists>e. date_formats w ts locale time_zone = Inl e"
  using assms
  by (auto simp: valid_locale_def date_formats_def format_date_def split: sum.splits option.splits)

lemma get_revision_date_result:
  "snd (get_revision_date_for_file w self path locale time_zone fb) =
     (case perform_git_log self path fb of
        (evs, Inl err) \<Rightarrow> Inl err
      | (evs, Inr ts) \<Rightarrow>
          date_formats w (if py_truthy ts then ts else PyFloat (time_time w)) locale time_zone)"
  by (simp add: get_revision_date_for_file_def split: prod.splits sum.splits)

lemma loc_revision_date_invalid_time_zone:
  assumes "valid_timestamp w ts time_zone" "get_timezone w time_zone = Inl e"
  shows "loc_revision_date w ts time_zone = Inl e"
  using assms
  by (auto simp: valid_timestamp_def loc_revision_date_def get_timezone_def
      split: sum.splits if_splits)

lemma date_formats_unknown_time_zone:
  assumes "valid_timestamp w ts time_zone" "get_timezone w time_zone = Inl e"
  shows "date_formats w ts locale time_zone = Inl e"
  using loc_revision_date_invalid_time_zone [OF assms] by (simp add: date_formats_def)

lemma date_formats_unknown_locale:
  assumes "valid_timestamp w ts time_zone" "valid_time_zone w time_zone" "locales w locale = Inl e"
  shows "date_formats w ts locale time_zone = Inl e"
proof -
  from loc_revision_date_valid [OF assms(1,2)]
  obtain d where "loc_revision_date w ts time_zone = Inr d" by blast
  with assms(3) show ?thesis by (simp add: date_formats_def format_date_def)
qed

section \<open>Counting commits\<close>







section \<open>The advisory warnings of the constructor\<close>

lemma rev_counts_events: "ev \<in> set (fst (rev_counts g refs)) \<Longrightarrow> is_query ev"
  by (induction refs arbitrary: ev) (auto split: sum.splits prod.splits)

lemma rev_counts_events_pair:
  "rev_counts g refs = (evs, r) \<Longrightarrow> ev \<in> set evs \<Longrightarrow> is_query ev"
  using rev_counts_events [of ev g refs] by simp

lemma commit_count_events: "ev \<in> set (fst (commit_count g)) \<Longrightarrow> is_query ev"
  by (auto simp: commit_count_def split: sum.splits prod.splits dest: rev_counts_events_pair)

lemma commit_count_no_logging: "Logging l m \<notin> set (fst (commit_count g))"
  using commit_count_events [of "Logging l m" g] by auto

lemma Util_init_located:
  assumes "Repo w path = Inr g"
  shows "Util_init w path config =
     (if is_shallow_clone w g then
        (case snd (commit_count g) of
           Inl e \<Rightarrow> (fst (commit_count g), Inl e)
         | Inr n \<Rightarrow>
             (fst (commit_count g)
              @ (if environ_truthy w ''GITLAB_CI'' \<and> n < 50
                 then [Logging WARNING GitlabShallow] else [])
              @ (if environ_truthy w ''GITHUB_ACTIONS'' \<and> n = 1
                 then [Logging WARNING GithubShallow] else []),
              Inr \<lparr>fallback_enabled = False, repo = Some g\<rparr>))
      else ([], Inr \<lparr>fallback_enabled = False, repo = Some g\<rparr>))"
  using assms by (simp add: Util_init_def Let_def split: prod.splits sum.splits)

lemma Util_init_not_located:
  assumes "Repo w path = Inl e"
  shows "\<forall>ev \<in> set (fst (Util_init w path config)). ev = Logging WARNING FallingBackNoRepo \<or> ev = Logging ERROR NoRepo"
  using assms by (simp add: Util_init_def)

lemma commit_count_sample: "snd (commit_count sample_git) = Inr 7"
  by code_simp

lemma commit_count_one: "snd (commit_count one_commit_git) = Inr 1"
  by code_simp

text \<open>
  Claim C6, as the code has it.  The constructor emits the GitLab warning exactly
  when the repository is located, \<^verbatim>\<open>is_shallow_clone\<close> answers yes, \<^verbatim>\<open>commit_count\<close>
  returns a count, the variable \<^verbatim>\<open>GITLAB_CI\<close> is set to a non-empty value and the
  count is below 50.  It emits the GitHub warning exactly when the repository is
  located, \<^verbatim>\<open>is_shallow_clone\<close> answers yes, \<^verbatim>\<open>commit_count\<close> returns a count, the
  variable \<^verbatim>\<open>GITHUB_ACTIONS\<close> is set to a non-empty value and the count equals 1,
  the default fetch depth of GitHub Actions, rather than being below it.
\<close>

theorem ci_warnings_exactly_when:
  "(Logging WARNING GitlabShallow \<in> set (fst (Util_init w path config)) \<longleftrightarrow>
      (\<exists>g n. Repo w path = Inr g \<and> is_shallow_clone w g \<and> snd (commit_count g) = Inr n
             \<and> environ_truthy w ''GITLAB_CI'' \<and> n < 50))
   \<and> (Logging WARNING GithubShallow \<in> set (fst (Util_init w path config)) \<longleftrightarrow>
      (\<exists>g n. Repo w path = Inr g \<and> is_shallow_clone w g \<and> snd (commit_count g) = Inr n
             \<and> environ_truthy w ''GITHUB_ACTIONS'' \<and> n = 1))"
proof (cases "Repo w path")
  case (Inl e)
  from Util_init_not_located [OF Inl, of config] Inl show ?thesis by auto
next
  case (Inr g)
  show ?thesis
  proof (cases "is_shallow_clone w g")
    case False
    with Inr show ?thesis by (simp add: Util_init_located)
  next
    case True
    show ?thesis
    proof (cases "snd (commit_count g)")
      case (Inl e)
      with Inr True show ?thesis
        by (simp add: Util_init_located commit_count_no_logging)
    next
      case r: (Inr n)
      with Inr True show ?thesis
        by (auto simp: Util_init_located commit_count_no_logging)
    qed
  qed
qed

theorem ci_warnings_exactly_when_witness:
  "Repo gitlab_world ''/srv/docs'' = Inr sample_git
   \<and> is_shallow_clone gitlab_world sample_git
   \<and> snd (commit_count sample_git) = Inr 7
   \<and> environ_truthy gitlab_world ''GITLAB_CI''
   \<and> \<not> environ_truthy gitlab_world ''GITHUB_ACTIONS''
   \<and> Logging WARNING GitlabShallow \<in> set (fst (Util_init gitlab_world ''/srv/docs'' Map.empty))
   \<and> Logging WARNING GithubShallow \<notin> set (fst (Util_init gitlab_world ''/srv/docs'' Map.empty))"
proof -
  have r: "Repo gitlab_world ''/srv/docs'' = Inr sample_git"
    by (simp add: gitlab_world_def)
  have s: "is_shallow_clone gitlab_world sample_git"
    by (simp add: is_shallow_clone_def os_path_exists_def gitlab_world_def)
  have e: "environ_truthy gitlab_world ''GITLAB_CI''"
    by (simp add: environ_truthy_def gitlab_world_def)
  have h: "\<not> environ_truthy gitlab_world ''GITHUB_ACTIONS''"
    by (simp add: environ_truthy_def gitlab_world_def)
  note t = ci_warnings_exactly_when [of gitlab_world "''/srv/docs''" Map.empty]
  have "\<exists>g n. Repo gitlab_world ''/srv/docs'' = Inr g \<and> is_shallow_clone gitlab_world g
          \<and> snd (commit_count g) = Inr n \<and> environ_truthy gitlab_world ''GITLAB_CI'' \<and> n < 50"
    using r s e commit_count_sample by auto
  with t have a: "Logging WARNING GitlabShallow \<in> set (fst (Util_init gitlab_world ''/srv/docs'' Map.empty))"
    by blast
  from t h have b: "Logging WARNING GithubShallow \<notin> set (fst (Util_init gitlab_world ''/srv/docs'' Map.empty))"
    by blast
  from r s commit_count_sample e h a b show ?thesis by (intro conjI)
qed

text \<open>
  Claim C6 as stated fails for GitHub Actions: on a shallow checkout whose commit
  count is 1, which is not below the default depth 1, the warning is emitted.
\<close>

theorem github_warning_at_default_depth_counterexample:
  "is_shallow_clone github_world one_commit_git
   \<and> environ_truthy github_world ''GITHUB_ACTIONS''
   \<and> snd (commit_count one_commit_git) = Inr 1
   \<and> \<not> (1::int) < 1
   \<and> Logging WARNING GithubShallow \<in> set (fst (Util_init github_world ''docs'' Map.empty))"
proof -
  have r: "Repo github_world ''docs'' = Inr one_commit_git"
    by (simp add: github_world_def)
  have s: "is_shallow_clone github_world one_commit_git"
    by (simp add: is_shallow_clone_def os_path_exists_def github_world_def)
  have e: "environ_truthy github_world ''GITHUB_ACTIONS''"
    by (simp add: environ_truthy_def github_world_def)
  have "Logging WARNING GithubShallow \<in> set (fst (Util_init github_world ''docs'' Map.empty))"
    using s e commit_count_one by (simp add: Util_init_located [OF r])
  with s e commit_count_one show ?thesis by simp
qed

text \<open>
  Claim C7, as the code has it.  For every located repository and every
  environment, the shallow-clone step leaves the state of the resolver alone:
  whenever the constructor returns, the instance is the one built from the located
  handle, with fallback-only mode off.  Beside the read-only queries of
  \<^verbatim>\<open>commit_count\<close>, the only events of the constructor are the two advisory warnings.
  The constructor returns whenever the marker file is absent or \<^verbatim>\<open>commit_count\<close>
  returns a count.
\<close>

theorem shallow_detection_advisory:
  assumes "Repo w path = Inr g"
  shows "(\<forall>u. snd (Util_init w path config) = Inr u \<longrightarrow> u = \<lparr>fallback_enabled = False, repo = Some g\<rparr>)
       \<and> (\<forall>ev \<in> set (fst (Util_init w path config)).
             is_query ev \<or> ev = Logging WARNING GitlabShallow \<or> ev = Logging WARNING GithubShallow)
       \<and> (\<not> is_shallow_clone w g \<or> (\<exists>n. snd (commit_count g) = Inr n) \<longrightarrow>
             snd (Util_init w path config) = Inr \<lparr>fallback_enabled = False, repo = Some g\<rparr>)"
  using commit_count_events [of _ g]
  by (auto simp: Util_init_located [OF assms] split: sum.splits if_splits)

theorem shallow_detection_advisory_witness:
  "Repo gitlab_world ''/srv/docs'' = Inr sample_git
   \<and> is_shallow_clone gitlab_world sample_git
   \<and> snd (commit_count sample_git) = Inr 7
   \<and> snd (Util_init gitlab_world ''/srv/docs'' fallback_config) =
       Inr \<lparr>fallback_enabled = False, repo = Some sample_git\<rparr>
   \<and> fst (Util_init gitlab_world ''/srv/docs'' fallback_config) =
       [ForEachRef, RevList ''a1'', RevList ''b2'', RevList ''c3'', Logging WARNING GitlabShallow]"
proof -
  have r: "Repo gitlab_world ''/srv/docs'' = Inr sample_git"
    by (simp add: gitlab_world_def)
  have s: "is_shallow_clone gitlab_world sample_git"
    by (simp add: is_shallow_clone_def os_path_exists_def gitlab_world_def)
  have n: "\<exists>n. snd (commit_count sample_git) = Inr n"
    using commit_count_sample by blast
  have e: "fst (Util_init gitlab_world ''/srv/docs'' fallback_config) =
       [ForEachRef, RevList ''a1'', RevList ''b2'', RevList ''c3'', Logging WARNING GitlabShallow]"
    by code_simp
  from shallow_detection_advisory [OF r, of fallback_config] n
  have u: "snd (Util_init gitlab_world ''/srv/docs'' fallback_config) =
       Inr \<lparr>fallback_enabled = False, repo = Some sample_git\<rparr>"
    by blast
  from r s commit_count_sample u e show ?thesis by (intro conjI)
qed

text \<open>
  Claim C7 as stated fails: the step is not wrapped in any handler, so a git
  command that fails inside \<^verbatim>\<open>commit_count\<close> makes the constructor raise, although
  the repository was located.
\<close>

theorem shallow_detection_raises_counterexample:
  "Repo refusing_world ''docs'' = Inr refusing_git
   \<and> is_shallow_clone refusing_world refusing_git
   \<and> Util_init refusing_world ''docs'' Map.empty = ([ForEachRef], Inl GitCommandError)"
proof -
  have r: "Repo refusing_world ''docs'' = Inr refusing_git"
    by (simp add: refusing_world_def)
  have s: "is_shallow_clone refusing_world refusing_git"
    by (simp add: is_shallow_clone_def os_path_exists_def refusing_world_def)
  have c: "commit_count refusing_git = ([ForEachRef], Inl GitCommandError)"
    by (simp add: commit_count_def refusing_git_def)
  show ?thesis using r s c by (simp add: Util_init_located [OF r])
qed

text \<open>
  Claim C8 fails on the code.  The located repository \<^verbatim>\<open>/srv/docs\<close> has no marker
  file in its metadata directory, but the process runs in \<^verbatim>\<open>/ci/build\<close>, where
  \<^verbatim>\<open>.git/shallow\<close> exists; \<^verbatim>\<open>is_shallow_clone\<close> looks there, and the GitLab warning is
  emitted.
\<close>

theorem warning_although_repository_not_shallow:
  "Repo gitlab_world ''/srv/docs'' = Inr sample_git
   \<and> git_dir sample_git = ''/srv/docs/.git''
   \<and> \<not> path_exists gitlab_world (git_dir sample_git @ ''/shallow'')
   \<and> cwd gitlab_world = ''/ci/build''
   \<and> Logging WARNING GitlabShallow \<in> set (fst (Util_init gitlab_world ''/srv/docs'' Map.empty))"
proof -
  have r: "Repo gitlab_world ''/srv/docs'' = Inr sample_git"
    by (simp add: gitlab_world_def)
  have s: "is_shallow_clone gitlab_world sample_git"
    by (simp add: is_shallow_clone_def os_path_exists_def gitlab_world_def)
  have e: "environ_truthy gitlab_world ''GITLAB_CI''"
    by (simp add: environ_truthy_def gitlab_world_def)
  have d: "git_dir sample_git = ''/srv/docs/.git''"
    by (simp add: sample_git_def)
  have a: "\<not> path_exists gitlab_world (git_dir sample_git @ ''/shallow'')"
    by (simp add: d gitlab_world_def)
  have c: "cwd gitlab_world = ''/ci/build''"
    by (simp add: gitlab_world_def)
  have "Logging WARNING GitlabShallow \<in> set (fst (Util_init gitlab_world ''/srv/docs'' Map.empty))"
    using s e commit_count_sample by (simp add: Util_init_located [OF r])
  with r d a c show ?thesis by (intro conjI)
qed

section \<open>When the resolver raises\<close>


lemma perform_git_log_expected:
  assumes "git_log_as_expected w self path time_zone"
  shows "(\<exists>evs. perform_git_log self path fb = (evs, Inr PyNone) \<and> (fb \<or> fallback_enabled self))
       \<or> (\<exists>evs. perform_git_log self path fb = (evs, Inr (PyStr [])))
       \<or> (\<exists>evs out. perform_git_log self path fb = (evs, Inr (PyStr out)) \<and> out \<noteq> []
              \<and> valid_timestamp w (PyStr out) time_zone)
       \<or> (\<exists>evs e g. perform_git_log self path fb = (evs, Inl e) \<and> \<not> fb \<and> \<not> fallback_enabled self
              \<and> repo self = Some g \<and> git_log g path = Inl e)"
proof (cases "fallback_enabled self")
  case True
  then show ?thesis by (simp add: perform_git_log_def)
next
  case False
  with assms obtain g where g: "repo self = Some g"
    by (auto simp: git_log_as_expected_def split: option.splits)
  show ?thesis
  proof (cases "git_log g path")
    case (Inl err)
    with assms False g have "err = GitCommandError \<or> err = GitCommandNotFound"
      by (simp add: git_log_as_expected_def)
    with Inl False g show ?thesis
      by (cases fb) (auto simp: perform_git_log_def)
  next
    case (Inr out)
    with assms False g have "out = [] \<or> valid_timestamp w (PyStr out) time_zone"
      by (simp add: git_log_as_expected_def)
    with Inr False g show ?thesis
      by (auto simp: perform_git_log_def)
  qed
qed




section \<open>Invalid locale and time zone\<close>

text \<open>The timestamp that \<^verbatim>\<open>get_revision_date_for_file\<close> formats when the query step
  hands over \<open>t\<close>: the clock reading when \<open>t\<close> is falsy.\<close>

lemma get_revision_date_hands_over:
  assumes "perform_git_log self path fb = (evs, Inr t)"
  shows "snd (get_revision_date_for_file w self path locale time_zone fb) =
           date_formats w (if py_truthy t then t else PyFloat (time_time w)) locale time_zone"
  using assms by (simp add: get_revision_date_result)

lemma fallback_hands_over_valid:
  assumes "fb \<or> fallback_enabled self"
      and "git_log_as_expected w self path time_zone"
      and "valid_timestamp w (PyFloat (time_time w)) time_zone"
  shows "\<exists>evs t. perform_git_log self path fb = (evs, Inr t)
           \<and> valid_timestamp w (if py_truthy t then t else PyFloat (time_time w)) time_zone"
proof -
  from perform_git_log_expected [OF assms(2), of fb]
  consider (none) evs where "perform_git_log self path fb = (evs, Inr PyNone)"
    | (empty) evs where "perform_git_log self path fb = (evs, Inr (PyStr []))"
    | (stamp) evs out where "perform_git_log self path fb = (evs, Inr (PyStr out))" "out \<noteq> []"
        "valid_timestamp w (PyStr out) time_zone"
    | (raised) "\<not> fb" "\<not> fallback_enabled self"
    by blast
  then show ?thesis
  proof cases
    case none
    with assms(3) show ?thesis by simp
  next
    case empty
    with assms(3) show ?thesis by simp
  next
    case stamp
    then show ?thesis by simp
  next
    case raised
    with assms(1) show ?thesis by simp
  qed
qed

text \<open>
  Claim C5, as the code has it.  For every timestamp that a date can hold, an
  invalid time zone makes \<^verbatim>\<open>_date_formats\<close> raise the exception that babel's
  \<^verbatim>\<open>get_timezone\<close> raises for the name (the \<^verbatim>\<open>LookupError\<close> of an unknown zone),
  the zone being looked up first, and with a valid time zone an invalid locale
  makes it raise the exception that babel's \<^verbatim>\<open>format_date\<close> raises for the
  identifier (the \<^verbatim>\<open>UnknownLocaleError\<close> of a locale without data).  For every
  timestamp whatsoever an invalid identifier makes it raise and return no
  dictionary; nothing is replaced by a default.  No fallback configuration
  suppresses these errors: whenever the query step of
  \<^verbatim>\<open>get_revision_date_for_file\<close> hands over a timestamp, what the formatter raises
  on the timestamp used is what leaves the function; and when fallback is
  permitted, \<^verbatim>\<open>git log\<close> behaves as the resolver expects and the clock reading is a
  timestamp that a date can hold, the function raises exactly the exception of the
  invalid zone or, with a valid zone, the exception of the invalid locale.
\<close>

theorem invalid_identifiers_raise:
  "(valid_timestamp w ts time_zone \<and> get_timezone w time_zone = Inl e \<longrightarrow>
      date_formats w ts locale time_zone = Inl e)
   \<and> (valid_timestamp w ts time_zone \<and> valid_time_zone w time_zone \<and> locales w locale = Inl e \<longrightarrow>
      date_formats w ts locale time_zone = Inl e)
   \<and> (\<not> valid_time_zone w time_zone \<or> \<not> valid_locale w locale \<longrightarrow>
      (\<exists>err. date_formats w ts locale time_zone = Inl err))
   \<and> (\<forall>evs t. perform_git_log self path fb = (evs, Inr t) \<longrightarrow>
      snd (get_revision_date_for_file w self path locale time_zone fb) =
        date_formats w (if py_truthy t then t else PyFloat (time_time w)) locale time_zone)
   \<and> ((fb \<or> fallback_enabled self) \<and> git_log_as_expected w self path time_zone
        \<and> valid_timestamp w (PyFloat (time_time w)) time_zone \<longrightarrow>
      (get_timezone w time_zone = Inl e \<longrightarrow>
         snd (get_revision_date_for_file w self path locale time_zone fb) = Inl e)
    \<and> (valid_time_zone w time_zone \<and> locales w locale = Inl e \<longrightarrow>
         snd (get_revision_date_for_file w self path locale time_zone fb) = Inl e))"
proof (intro conjI impI allI)
  assume "valid_timestamp w ts time_zone \<and> get_timezone w time_zone = Inl e"
  then show "date_formats w ts locale time_zone = Inl e"
    using date_formats_unknown_time_zone by blast
next
  assume "valid_timestamp w ts time_zone \<and> valid_time_zone w time_zone \<and> locales w locale = Inl e"
  then show "date_formats w ts locale time_zone = Inl e"
    using date_formats_unknown_locale by blast
next
  assume "\<not> valid_time_zone w time_zone \<or> \<not> valid_locale w locale"
  then show "\<exists>err. date_formats w ts locale time_zone = Inl err"
    using date_formats_invalid_time_zone date_formats_invalid_locale by blast
next
  fix evs t
  assume "perform_git_log self path fb = (evs, Inr t)"
  then show "snd (get_revision_date_for_file w self path locale time_zone fb) =
        date_formats w (if py_truthy t then t else PyFloat (time_time w)) locale time_zone"
    by (rule get_revision_date_hands_over)
next
  assume a: "(fb \<or> fallback_enabled self) \<and> git_log_as_expected w self path time_zone
        \<and> valid_timestamp w (PyFloat (time_time w)) time_zone"
    and z: "get_timezone w time_zone = Inl e"
  from a fallback_hands_over_valid [of fb self w path time_zone]
  obtain evs t where p: "perform_git_log self path fb = (evs, Inr t)"
    and v: "valid_timestamp w (if py_truthy t then t else PyFloat (time_time w)) time_zone"
    by blast
  show "snd (get_revision_date_for_file w self path locale time_zone fb) = Inl e"
    unfolding get_revision_date_hands_over [OF p]
    using v z by (rule date_formats_unknown_time_zone)
next
  assume a: "(fb \<or> fallback_enabled self) \<and> git_log_as_expected w self path time_zone
        \<and> valid_timestamp w (PyFloat (time_time w)) time_zone"
    and z: "valid_time_zone w time_zone \<and> locales w locale = Inl e"
  from a fallback_hands_over_valid [of fb self w path time_zone]
  obtain evs t where p: "perform_git_log self path fb = (evs, Inr t)"
    and v: "valid_timestamp w (if py_truthy t then t else PyFloat (time_time w)) time_zone"
    by blast
  from z have z1: "valid_time_zone w time_zone" and z2: "locales w locale = Inl e" by simp_all
  show "snd (get_revision_date_for_file w self path locale time_zone fb) = Inl e"
    unfolding get_revision_date_hands_over [OF p]
    using v z1 z2 by (rule date_formats_unknown_locale)
qed

theorem invalid_identifiers_raise_witness:
  "get_timezone full_clone_world ''Mars/Olympus'' = Inl (LookupError ''Mars/Olympus'')
   \<and> valid_timestamp full_clone_world (PyStr ''1690000000'') ''Mars/Olympus''
   \<and> date_formats full_clone_world (PyStr ''1690000000'') ''en'' ''Mars/Olympus'' =
       Inl (LookupError ''Mars/Olympus'')
   \<and> locales full_clone_world ''tlh'' = Inl (UnknownLocaleError ''tlh'')
   \<and> valid_time_zone full_clone_world ''UTC''
   \<and> valid_timestamp full_clone_world (PyStr ''1690000000'') ''UTC''
   \<and> date_formats full_clone_world (PyStr ''1690000000'') ''tlh'' ''UTC'' =
       Inl (UnknownLocaleError ''tlh'')
   \<and> perform_git_log sample_util ''docs/index.md'' True =
       ([GitLog ''docs/index.md''], Inr (PyStr ''1690000000''))
   \<and> git_log_as_expected full_clone_world sample_util ''docs/index.md'' ''Mars/Olympus''
   \<and> valid_timestamp full_clone_world (PyFloat (time_time full_clone_world)) ''Mars/Olympus''
   \<and> snd (get_revision_date_for_file full_clone_world sample_util ''docs/index.md''
             ''en'' ''Mars/Olympus'' True) = Inl (LookupError ''Mars/Olympus'')
   \<and> fallback_enabled fallback_util
   \<and> git_log_as_expected full_clone_world fallback_util ''docs/index.md'' ''UTC''
   \<and> valid_timestamp full_clone_world (PyFloat (time_time full_clone_world)) ''UTC''
   \<and> snd (get_revision_date_for_file full_clone_world fallback_util ''docs/index.md''
             ''tlh'' ''UTC'' False) = Inl (UnknownLocaleError ''tlh'')"
proof -
  have z: "get_timezone full_clone_world ''Mars/Olympus'' = Inl (LookupError ''Mars/Olympus'')"
    by (simp add: get_timezone_def full_clone_world_def sample_timezones_def)
  have tz: "valid_timestamp full_clone_world (PyStr ''1690000000'') ''Mars/Olympus''" by code_simp
  have l: "locales full_clone_world ''tlh'' = Inl (UnknownLocaleError ''tlh'')"
    by (simp add: full_clone_world_def sample_locales_def)
  have u: "valid_time_zone full_clone_world ''UTC''" by code_simp
  have tu: "valid_timestamp full_clone_world (PyStr ''1690000000'') ''UTC''" by code_simp
  have p: "perform_git_log sample_util ''docs/index.md'' True =
       ([GitLog ''docs/index.md''], Inr (PyStr ''1690000000''))"
    by code_simp
  have qm: "git_log_as_expected full_clone_world sample_util ''docs/index.md'' ''Mars/Olympus''"
    by code_simp
  have cm: "valid_timestamp full_clone_world (PyFloat (time_time full_clone_world)) ''Mars/Olympus''"
    by code_simp
  have f: "fallback_enabled fallback_util" by (simp add: fallback_util_def)
  have qu: "git_log_as_expected full_clone_world fallback_util ''docs/index.md'' ''UTC''"
    by code_simp
  have cu: "valid_timestamp full_clone_world (PyFloat (time_time full_clone_world)) ''UTC''"
    by code_simp
  note a = invalid_identifiers_raise [of full_clone_world "PyStr ''1690000000''" "''Mars/Olympus''"
      "LookupError ''Mars/Olympus''" "''en''" sample_util "''docs/index.md''" True]
  note b = invalid_identifiers_raise [of full_clone_world "PyStr ''1690000000''" "''UTC''"
      "UnknownLocaleError ''tlh''" "''tlh''" fallback_util "''docs/index.md''" False]
  from a z tz have a1: "date_formats full_clone_world (PyStr ''1690000000'') ''en'' ''Mars/Olympus'' =
       Inl (LookupError ''Mars/Olympus'')" by blast
  from a z qm cm have a2: "snd (get_revision_date_for_file full_clone_world sample_util
       ''docs/index.md'' ''en'' ''Mars/Olympus'' True) = Inl (LookupError ''Mars/Olympus'')" by blast
  from b l u tu have b1: "date_formats full_clone_world (PyStr ''1690000000'') ''tlh'' ''UTC'' =
       Inl (UnknownLocaleError ''tlh'')" by blast
  from b l u f qu cu have b2: "snd (get_revision_date_for_file full_clone_world fallback_util
       ''docs/index.md'' ''tlh'' ''UTC'' False) = Inl (UnknownLocaleError ''tlh'')" by blast
  from z tz a1 l u tu b1 p qm cm a2 f qu cu b2 show ?thesis by (intro conjI)
qed

text \<open>
  Claim C5 as stated fails for a timestamp that no date can hold: the year is
  checked before the locale is looked at, and an invalid locale then goes
  unreported.
\<close>

theorem unrepresentable_timestamp_counterexample:
  "locales full_clone_world ''tlh'' = Inl (UnknownLocaleError ''tlh'')
   \<and> \<not> valid_locale full_clone_world ''tlh''
   \<and> valid_time_zone full_clone_world ''UTC''
   \<and> date_formats full_clone_world (PyInt 1000000000000) ''tlh'' ''UTC'' = Inl ValueError"
proof -
  have e: "locales full_clone_world ''tlh'' = Inl (UnknownLocaleError ''tlh'')"
    by (simp add: full_clone_world_def sample_locales_def)
  have l: "\<not> valid_locale full_clone_world ''tlh''" by code_simp
  have u: "valid_time_zone full_clone_world ''UTC''" by code_simp
  have d: "date_formats full_clone_world (PyInt 1000000000000) ''tlh'' ''UTC'' = Inl ValueError"
    by code_simp
  from e l u d show ?thesis by (intro conjI)
qed

end
